theory Spec2Isabelle
  imports Main "HOL-Library.Word"
begin

unbundle bit_operations_syntax

section \<open>Data model\<close>

text \<open>
  Go's \<open>byte\<close>/\<open>uint8\<close>, \<open>uint16\<close> and \<open>uint32\<close> are words of that width.
  A \<open>rune\<close> is an \<open>int32\<close> code point; the detector only stores and returns it.
\<close>

type_synonym byte = "8 word"
type_synonym rune = "32 word"

text \<open>Go \<open>error\<close> values that occur on the read path.\<close>

datatype error = EOF | MalformedPayload | TransportError string

text \<open>
  \<open>DTMFEvent\<close>: the decoded telephone-event, with the four fields the sources use
  (\<open>Event\<close>, \<open>EndOfEvent\<close>, \<open>Volume\<close>, \<open>Duration\<close>). \<open>DTMFEvent{}\<close> is the zero value.
\<close>

record DTMFEvent =
  Event :: "8 word"
  EndOfEvent :: bool
  Volume :: "8 word"
  Duration :: "16 word"

definition zero_DTMFEvent :: DTMFEvent where
  "zero_DTMFEvent = \<lparr>Event = 0, EndOfEvent = False, Volume = 0, Duration = 0\<rparr>"

text \<open>\<open>Codec\<close>, with the fields the sources read: \<open>Name\<close>, \<open>PayloadType\<close>, \<open>SampleRate\<close>.\<close>

record Codec =
  Name :: string
  PayloadType :: "8 word"
  SampleRate :: "32 word"

text \<open>
  The RTP header of the last received packet, with the two fields the reader looks at,
  and the \<open>RTPPacketReader\<close> that exposes it as \<open>PacketHeader\<close>.
\<close>

record Header =
  PayloadType :: "8 word"
  Timestamp :: "32 word"

record RTPPacketReader =
  PacketHeader :: Header

text \<open>
  \<open>RTPDtmfReader\<close>. The struct holds an \<open>io.Reader\<close> and a pointer to the packet reader;
  both live outside the struct and are mutated by others (the test loop writes
  \<open>packetReader.PacketHeader.Timestamp\<close>, a read fills the caller's buffer and the
  header). Everything outside the struct is an environment \<open>'e\<close>:
  \<^item> \<open>reader\<close> is the behaviour of \<open>reader.Read(b)\<close>: from the environment and the
    buffer to \<open>(n, err)\<close>, the buffer afterwards and the environment afterwards;
  \<^item> \<open>packetReader\<close> is the pointer: it is dereferenced in the current environment.
\<close>

record 'e RTPDtmfReader =
  codec :: Codec
  reader :: "'e \<Rightarrow> byte list \<Rightarrow> (int \<times> error option) \<times> byte list \<times> 'e"
  packetReader :: "'e \<Rightarrow> RTPPacketReader"
  lastEvent :: "8 word"
  lastTimestamp :: "32 word"
  endProcessed :: bool
  dtmf :: rune
  dtmfSet :: bool

section \<open>Helpers of the package that the reader calls\<close>

text \<open>
  Modelled from the spec: \<open>DTMFToRune\<close>, the symbol table of section 4.1, whose Go
  source is not among the files. Codes 0-9 give \<open>'0'\<close>-\<open>'9'\<close>, 10 gives \<open>'*'\<close>, 11 gives
  \<open>'#'\<close>, 12-15 give \<open>'A'\<close>-\<open>'D'\<close>; any other code gives the placeholder, for which the
  spec suggests the null character.
\<close>

definition DTMFToRune :: "8 word \<Rightarrow> rune" where
  "DTMFToRune d =
     (if d < 10 then of_char CHR ''0'' + ucast d
      else if d = 10 then of_char CHR ''*''
      else if d = 11 then of_char CHR ''#''
      else if d \<le> 15 then of_char CHR ''A'' + (ucast d - 12)
      else 0)"

text \<open>
  Modelled from the spec: \<open>DTMFDecode\<close>, the telephone-event decoder of section 4.1,
  whose Go source is not among the files. It is called as \<open>DTMFDecode(b, &ev)\<close>: it
  fails on fewer than four bytes and leaves \<open>ev\<close> as it was; otherwise byte 0 is the
  digit code, the high bit of byte 1 the end flag, its low seven bits the volume, and
  bytes 2-3 the big-endian duration.
\<close>

definition DTMFDecode :: "byte list \<Rightarrow> DTMFEvent \<Rightarrow> error option \<times> DTMFEvent" where
  "DTMFDecode payload ev =
     (if length payload < 4 then (Some MalformedPayload, ev)
      else (None,
        ev\<lparr>Event := payload ! 0,
           EndOfEvent := (payload ! 1 AND 0x80 \<noteq> 0),
           Volume := payload ! 1 AND 0x7F,
           Duration := push_bit 8 (ucast (payload ! 2)) OR ucast (payload ! 3)\<rparr>))"

section \<open>The DTMF reader (media/rtp\_dtmf\_reader.go)\<close>

text \<open>
  \<open>NewRTPDTMFReader(codec, packetReader, reader, minDuration...)\<close>: the variadic
  \<open>minDuration\<close> is a list of \<open>uint16\<close>. Fields the literal leaves out get Go's zero value.
\<close>

definition NewRTPDTMFReader ::
  "Codec \<Rightarrow> ('e \<Rightarrow> RTPPacketReader) \<Rightarrow>
   ('e \<Rightarrow> byte list \<Rightarrow> (int \<times> error option) \<times> byte list \<times> 'e) \<Rightarrow>
   16 word list \<Rightarrow> 'e RTPDtmfReader" where
  "NewRTPDTMFReader cdc pktReader rdr minDuration =
     \<lparr>codec = cdc, reader = rdr, packetReader = pktReader,
      lastEvent = 255, lastTimestamp = 0, endProcessed = False,
      dtmf = 0, dtmfSet = False\<rparr>"

text \<open>
  \<open>isNewEvent := w.lastEvent != ev.Event || w.lastTimestamp != timestamp\<close>
  (line 69), as a function of the reader, the timestamp and the event.
\<close>

definition isNewEvent :: "'e RTPDtmfReader \<Rightarrow> 32 word \<Rightarrow> DTMFEvent \<Rightarrow> bool" where
  "isNewEvent w timestamp ev = (lastEvent w \<noteq> Event ev \<or> lastTimestamp w \<noteq> timestamp)"

text \<open>
  \<open>processDTMFEvent\<close> (lines 60-95). The timestamp is read through the packet-reader
  pointer in the current environment. The debug logging has no effect on the reader.
\<close>

definition processDTMFEvent :: "'e RTPDtmfReader \<Rightarrow> 'e \<Rightarrow> DTMFEvent \<Rightarrow> 'e RTPDtmfReader" where
  "processDTMFEvent w e ev =
     (let timestamp = Timestamp (PacketHeader (packetReader w e)) in
      if isNewEvent w timestamp ev then
        (let w1 = w\<lparr>lastEvent := Event ev, lastTimestamp := timestamp, endProcessed := False\<rparr> in
         if EndOfEvent ev
         then w1\<lparr>dtmf := DTMFToRune (Event ev), dtmfSet := True, endProcessed := True\<rparr>
         else w1)
      else if EndOfEvent ev \<and> \<not> endProcessed w then
        w\<lparr>dtmf := DTMFToRune (Event ev), dtmfSet := True, endProcessed := True\<rparr>
      else if EndOfEvent ev \<and> endProcessed w then w
      else w)"

text \<open>
  \<open>ReadDTMF\<close> (lines 97-102): the return values are evaluated first, then the deferred
  function clears \<open>dtmfSet\<close>.
\<close>

definition ReadDTMF :: "'e RTPDtmfReader \<Rightarrow> (rune \<times> bool) \<times> 'e RTPDtmfReader" where
  "ReadDTMF w = ((dtmf w, dtmfSet w), w\<lparr>dtmfSet := False\<rparr>)"

text \<open>
  \<open>Read\<close> (lines 37-58). The decoder is a parameter \<open>decode\<close>, called as
  \<open>decode b ev\<close> for \<open>DTMFDecode(b, &ev)\<close>; it gets the whole buffer \<open>b\<close> as the
  underlying read left it. A decoding error is only logged (\<open>slog.Error\<close>): control
  falls through to \<open>processDTMFEvent(ev)\<close>. The result is \<open>(n, err)\<close>, the reader,
  the buffer and the environment after the call.
\<close>

definition Read ::
  "(byte list \<Rightarrow> DTMFEvent \<Rightarrow> error option \<times> DTMFEvent) \<Rightarrow> 'e RTPDtmfReader \<Rightarrow> 'e \<Rightarrow> byte list \<Rightarrow>
   (int \<times> error option) \<times> 'e RTPDtmfReader \<times> byte list \<times> 'e" where
  "Read decode w e b =
     (case reader w e b of
        ((n, err), b', e') \<Rightarrow>
          if err \<noteq> None then ((n, err), w, b', e')
          else
            (let hdr = PacketHeader (packetReader w e') in
             if Header.PayloadType hdr \<noteq> Codec.PayloadType (codec w)
             then ((n, None), w, b', e')
             else
               (case decode b' zero_DTMFEvent of
                  (derr, ev) \<Rightarrow> ((n, None), processDTMFEvent w e' ev, b', e'))))"

section \<open>The polling loop of the tests\<close>

text \<open>
  The tests drive the reader one packet at a time: the environment supplies the
  timestamp, \<open>processDTMFEvent\<close> runs, then \<open>ReadDTMF\<close> is polled and the rune is kept
  when the flag is set. \<open>poll\<close> is one iteration, \<open>detections\<close> the per-packet results,
  \<open>run\<close> the reader after the loop and \<open>detected\<close> the string the tests compare.
\<close>

definition poll :: "'e RTPDtmfReader \<Rightarrow> 'e \<times> DTMFEvent \<Rightarrow> rune option \<times> 'e RTPDtmfReader" where
  "poll w x =
     (case ReadDTMF (processDTMFEvent w (fst x) (snd x)) of
        ((r, isSet), w') \<Rightarrow> (if isSet then Some r else None, w'))"

fun detections :: "'e RTPDtmfReader \<Rightarrow> ('e \<times> DTMFEvent) list \<Rightarrow> rune option list" where
  "detections w [] = []"
| "detections w (x # xs) = fst (poll w x) # detections (snd (poll w x)) xs"

fun run :: "'e RTPDtmfReader \<Rightarrow> ('e \<times> DTMFEvent) list \<Rightarrow> 'e RTPDtmfReader" where
  "run w [] = w"
| "run w (x # xs) = run (snd (poll w x)) xs"

definition detected :: "'e RTPDtmfReader \<Rightarrow> ('e \<times> DTMFEvent) list \<Rightarrow> rune list" where
  "detected w xs = List.map_filter id (detections w xs)"

text \<open>
  The packets of one press, as the environment presents them to a reader whose
  packet-reader pointer is \<open>p\<close>: a continuation packet carries the digit, the press's
  timestamp and no end flag; a terminal packet carries the end flag. A press is at
  least one continuation packet followed by at least one terminal packet.
\<close>

definition continuation :: "('e \<Rightarrow> RTPPacketReader) \<Rightarrow> 8 word \<Rightarrow> 32 word \<Rightarrow> 'e \<times> DTMFEvent \<Rightarrow> bool" where
  "continuation p d t x =
     (Event (snd x) = d \<and> \<not> EndOfEvent (snd x) \<and> Timestamp (PacketHeader (p (fst x))) = t)"

definition terminal :: "('e \<Rightarrow> RTPPacketReader) \<Rightarrow> 8 word \<Rightarrow> 32 word \<Rightarrow> 'e \<times> DTMFEvent \<Rightarrow> bool" where
  "terminal p d t x =
     (Event (snd x) = d \<and> EndOfEvent (snd x) \<and> Timestamp (PacketHeader (p (fst x))) = t)"

definition press ::
  "('e \<Rightarrow> RTPPacketReader) \<Rightarrow> 8 word \<Rightarrow> 32 word \<Rightarrow> ('e \<times> DTMFEvent) list \<Rightarrow> ('e \<times> DTMFEvent) list \<Rightarrow> bool" where
  "press p d t cs tms =
     (1 \<le> length cs \<and> 1 \<le> length tms \<and> list_all (continuation p d t) cs \<and> list_all (terminal p d t) tms)"

text \<open>
  The environment of the tests is the packet reader itself: the pointer is the
  identity, and \<open>at ts\<close> is the packet reader after
  \<open>packetReader.PacketHeader.Timestamp = ts\<close>; the tests leave the payload type 0.
\<close>

definition at :: "32 word \<Rightarrow> RTPPacketReader" where
  "at ts = \<lparr>PacketHeader = \<lparr>Header.PayloadType = 0, Timestamp = ts\<rparr>\<rparr>"

definition pkt :: "8 word \<Rightarrow> bool \<Rightarrow> 16 word \<Rightarrow> DTMFEvent" where
  "pkt d fin dur = \<lparr>Event = d, EndOfEvent = fin, Volume = 10, Duration = dur\<rparr>"

text \<open>
  The reader the tests build: \<open>NewRTPDTMFReader(Codec{PayloadType: 101}, packetReader, nil)\<close>.
  The tests never call \<open>Read\<close> on it; the nil reader is a reader at the end of
  its stream here.
\<close>

definition test_codec :: Codec where
  "test_codec = \<lparr>Name = [], Codec.PayloadType = 101, SampleRate = 0\<rparr>"

definition fresh :: "RTPPacketReader RTPDtmfReader" where
  "fresh = NewRTPDTMFReader test_codec (\<lambda>e. e) (\<lambda>e b. ((0, Some EOF), b, e)) []"


section \<open>The ring tone generator (ringtone.go)\<close>

text \<open>
  \<open>generateRingTonePCM(sampleRate int)\<close>. Go's \<open>int\<close> is taken as 64 bits, a
  \<open>64 word\<close> read as two's complement: \<open>sampleRate * durationSec\<close> wraps and
  \<open>i < numSamples\<close> compares signed. The sample value is a floating-point expression
  of \<open>i\<close> and \<open>sampleRate\<close> converted to \<open>int16\<close>; it is the parameter \<open>intSample\<close>.
  \<open>binary.Write\<close> with \<open>binary.LittleEndian\<close> appends the two bytes of an \<open>int16\<close>, low
  byte first.

  The buffer is bounded. The length of a \<open>[]byte\<close> is a Go \<open>int\<close>, so it never
  passes \<open>maxInt\<close>; \<open>bytes.Buffer\<close> panics with \<open>ErrTooLarge\<close> when it cannot grow,
  and the runtime aborts when memory runs out. \<open>avail\<close> is the number of bytes the
  runtime can give the buffer; a write that would take the buffer past
  \<open>min avail maxInt\<close> does not return, and neither does the function: its result is
  \<open>None\<close>.
\<close>

definition maxInt :: nat where
  "maxInt = 2 ^ 63 - 1"

definition le16 :: "16 word \<Rightarrow> byte list" where
  "le16 s = [ucast s, ucast (drop_bit 8 s)]"

function ringTone_loop ::
  "nat \<Rightarrow> (64 word \<Rightarrow> 64 word \<Rightarrow> 16 word) \<Rightarrow> 64 word \<Rightarrow> 64 word \<Rightarrow> 64 word \<Rightarrow> byte list \<Rightarrow>
   byte list option" where
  "ringTone_loop avail intSample sampleRate numSamples i buf =
     (if i <s numSamples
      then
        (if length buf + 2 \<le> min avail maxInt
         then ringTone_loop avail intSample sampleRate numSamples (i + 1)
                (buf @ le16 (intSample sampleRate i))
         else None)
      else Some buf)"
  by pat_completeness auto
termination
proof (relation "measure (\<lambda>(a, f, sr, n, i, buf). nat (sint n - sint i))")
  show "wf (measure (\<lambda>(a, f, sr, n, i, buf). nat (sint n - sint i)))"
    by simp
next
  fix avail :: nat and intSample :: "64 word \<Rightarrow> 64 word \<Rightarrow> 16 word"
  fix sampleRate numSamples i :: "64 word" and buf :: "byte list"
  assume "i <s numSamples"
  then have lt: "sint i < sint numSamples"
    by (simp add: word_sless_alt)
  have ub: "sint numSamples < 2 ^ 63"
    using sint_lt [of numSamples] by simp
  have lb: "- (2 ^ 63) \<le> sint i"
    using sint_ge [of i] by simp
  have "sint (i + 1) = signed_take_bit 63 (sint i + 1)"
    by (simp add: sint_word_ariths)
  also have "\<dots> = sint i + 1"
    using lt ub lb by (intro signed_take_bit_int_eq_self) auto
  finally have "sint (i + 1) = sint i + 1" .
  with lt show "((avail, intSample, sampleRate, numSamples, i + 1, buf @ le16 (intSample sampleRate i)),
                 (avail, intSample, sampleRate, numSamples, i, buf))
                \<in> measure (\<lambda>(a, f, sr, n, i, buf). nat (sint n - sint i))"
    by simp
qed

declare ringTone_loop.simps [simp del]

definition generateRingTonePCM ::
  "nat \<Rightarrow> (64 word \<Rightarrow> 64 word \<Rightarrow> 16 word) \<Rightarrow> 64 word \<Rightarrow> byte list option" where
  "generateRingTonePCM avail intSample sampleRate =
     (let durationSec = 2; numSamples = sampleRate * durationSec
      in ringTone_loop avail intSample sampleRate numSamples 0 [])"

section \<open>Notions used to state the properties\<close>

text \<open>
  Where a reader stands with respect to the press \<open>(d, t)\<close>, seen through the pointer
  \<open>p\<close>, when its latch has been read: \<open>armed\<close> when the terminal packet of that press
  has not been reported yet, \<open>reported\<close> when it has.
\<close>

definition armed :: "('e \<Rightarrow> RTPPacketReader) \<Rightarrow> 8 word \<Rightarrow> 32 word \<Rightarrow> 'e RTPDtmfReader \<Rightarrow> bool" where
  "armed p d t w =
     (packetReader w = p \<and> \<not> dtmfSet w \<and> \<not> (lastEvent w = d \<and> lastTimestamp w = t \<and> endProcessed w))"

definition reported :: "('e \<Rightarrow> RTPPacketReader) \<Rightarrow> 8 word \<Rightarrow> 32 word \<Rightarrow> 'e RTPDtmfReader \<Rightarrow> bool" where
  "reported p d t w =
     (packetReader w = p \<and> \<not> dtmfSet w \<and> lastEvent w = d \<and> lastTimestamp w = t \<and> endProcessed w)"

text \<open>The four components of what \<open>Read\<close> leaves behind.\<close>

definition ret_of :: "(int \<times> error option) \<times> 'e RTPDtmfReader \<times> byte list \<times> 'e \<Rightarrow> int \<times> error option" where
  "ret_of r = fst r"

definition state_of :: "(int \<times> error option) \<times> 'e RTPDtmfReader \<times> byte list \<times> 'e \<Rightarrow> 'e RTPDtmfReader" where
  "state_of r = fst (snd r)"

definition buf_of :: "(int \<times> error option) \<times> 'e RTPDtmfReader \<times> byte list \<times> 'e \<Rightarrow> byte list" where
  "buf_of r = fst (snd (snd r))"

definition env_of :: "(int \<times> error option) \<times> 'e RTPDtmfReader \<times> byte list \<times> 'e \<Rightarrow> 'e" where
  "env_of r = snd (snd (snd r))"

section \<open>One packet, then a run of packets\<close>

lemma poll_continuation:
  assumes "continuation p d t x" and "armed p d t w"
  shows "fst (poll w x) = None" and "armed p d t (snd (poll w x))"
  using assms
  by (auto simp: poll_def ReadDTMF_def processDTMFEvent_def isNewEvent_def Let_def
      continuation_def armed_def)

lemma poll_terminal_first:
  assumes "terminal p d t x" and "armed p d t w"
  shows "fst (poll w x) = Some (DTMFToRune d)" and "reported p d t (snd (poll w x))"
  using assms
  by (auto simp: poll_def ReadDTMF_def processDTMFEvent_def isNewEvent_def Let_def
      terminal_def armed_def reported_def)

lemma poll_terminal_again:
  assumes "terminal p d t x" and "reported p d t w"
  shows "fst (poll w x) = None" and "reported p d t (snd (poll w x))"
  using assms
  by (auto simp: poll_def ReadDTMF_def processDTMFEvent_def isNewEvent_def Let_def
      terminal_def reported_def)

lemma detections_append: "detections w (xs @ ys) = detections w xs @ detections (run w xs) ys"
  by (induction xs arbitrary: w) simp_all

lemma run_append: "run w (xs @ ys) = run (run w xs) ys"
  by (induction xs arbitrary: w) simp_all

lemma run_continuations:
  assumes "list_all (continuation p d t) cs" and "armed p d t w"
  shows "detections w cs = replicate (length cs) None \<and> armed p d t (run w cs)"
  using assms
proof (induction cs arbitrary: w)
  case Nil
  then show ?case by simp
next
  case (Cons x cs)
  from Cons.prems have x: "continuation p d t x" and cs: "list_all (continuation p d t) cs"
    by simp_all
  from poll_continuation [OF x Cons.prems(2)] Cons.IH [OF cs]
  show ?case by simp
qed

lemma run_redundant:
  assumes "list_all (terminal p d t) tms" and "reported p d t w"
  shows "detections w tms = replicate (length tms) None \<and> reported p d t (run w tms)"
  using assms
proof (induction tms arbitrary: w)
  case Nil
  then show ?case by simp
next
  case (Cons x tms)
  from Cons.prems have x: "terminal p d t x" and r: "list_all (terminal p d t) tms"
    by simp_all
  from poll_terminal_again [OF x Cons.prems(2)] Cons.IH [OF r]
  show ?case by simp
qed

lemma run_terminals:
  assumes "list_all (terminal p d t) tms" and "tms \<noteq> []" and "armed p d t w"
  shows "detections w tms = Some (DTMFToRune d) # replicate (length tms - 1) None
         \<and> reported p d t (run w tms)"
proof (cases tms)
  case Nil
  with assms(2) show ?thesis by simp
next
  case (Cons x r)
  with assms(1) have x: "terminal p d t x" and r: "list_all (terminal p d t) r"
    by simp_all
  from poll_terminal_first [OF x assms(3)] run_redundant [OF r]
  show ?thesis by (simp add: Cons)
qed

lemma run_press:
  assumes "press p d t cs tms" and "armed p d t w"
  shows "detections w (cs @ tms) =
           replicate (length cs) None @ Some (DTMFToRune d) # replicate (length tms - 1) None
         \<and> reported p d t (run w (cs @ tms))"
proof -
  from assms(1) have cs: "list_all (continuation p d t) cs"
    and tms: "list_all (terminal p d t) tms" and ne: "tms \<noteq> []"
    by (auto simp: press_def)
  from run_continuations [OF cs assms(2)]
  have 1: "detections w cs = replicate (length cs) None" and 2: "armed p d t (run w cs)"
    by simp_all
  from run_terminals [OF tms ne 2] 1 show ?thesis
    by (simp add: detections_append run_append)
qed

lemma map_filter_nones: "List.map_filter id (replicate n None) = []"
  by (induction n) (simp_all add: List.map_filter_simps)

lemma map_filter_id_append:
  "List.map_filter id (xs @ ys) = List.map_filter id xs @ List.map_filter id ys"
  by (simp add: List.map_filter_def)

lemma detected_append: "detected w (xs @ ys) = detected w xs @ detected (run w xs) ys"
  by (simp add: detected_def detections_append map_filter_id_append)

lemma detected_press:
  assumes "press p d t cs tms" and "armed p d t w"
  shows "detected w (cs @ tms) = [DTMFToRune d]"
  using run_press [OF assms]
  by (simp add: detected_def map_filter_id_append map_filter_nones List.map_filter_simps)

lemma reported_armed: "reported p d t w \<Longrightarrow> t' \<noteq> t \<Longrightarrow> armed p d' t' w"
  by (auto simp: reported_def armed_def)

section \<open>The ring tone loop\<close>






text \<open>
  Past the rates a codec can carry the function no longer builds the tone: at the
  sample rate 2^62 the product \<open>sampleRate * durationSec\<close> wraps to a negative
  \<open>numSamples\<close>, the loop body never runs and the buffer comes back empty.
\<close>

lemma generateRingTonePCM_wraps: "generateRingTonePCM avail intSample (2 ^ 62) = Some []"
  by (simp add: generateRingTonePCM_def ringTone_loop.simps word_sless_alt)

section \<open>The claims\<close>

text \<open>
  C1. A press arrives as N \<ge> 1 continuation packets followed by M \<ge> 1 terminal
  packets, all with one digit code and one RTP timestamp. Polled after every packet,
  the reader yields nothing on the continuation packets, the digit's symbol on the first
  terminal packet, and nothing on the M - 1 redundant terminal packets: one detection in
  all. \<open>processDTMFEvent\<close> returns no error value, so there is none to report. The
  latch is empty when the press starts, and the reader has not already reported the
  terminal packet of this very digit and timestamp (the spec's notion of the same press).
\<close>

theorem one_detection_per_press:
  assumes "press (packetReader w) d t cs tms"
    and "\<not> dtmfSet w"
    and "\<not> (lastEvent w = d \<and> lastTimestamp w = t \<and> endProcessed w)"
  shows "detections w (cs @ tms) =
           replicate (length cs) None @ Some (DTMFToRune d) # replicate (length tms - 1) None
         \<and> detected w (cs @ tms) = [DTMFToRune d]"
proof -
  have a: "armed (packetReader w) d t w"
    using assms(2,3) by (simp add: armed_def)
  from run_press [OF assms(1) a] detected_press [OF assms(1) a]
  show ?thesis by simp
qed

text \<open>The packets of \<open>TestDTMFDuplicateEndEvents\<close>: digit 7 at timestamp 7000.\<close>

theorem one_detection_per_press_witness:
  "detections fresh
     ([(at 7000, pkt 7 False 160), (at 7000, pkt 7 False 320), (at 7000, pkt 7 False 480)]
      @ [(at 7000, pkt 7 True 640), (at 7000, pkt 7 True 640), (at 7000, pkt 7 True 640)])
   = [None, None, None, Some (of_char CHR ''7''), None, None]"
  using one_detection_per_press [of fresh 7 7000
      "[(at 7000, pkt 7 False 160), (at 7000, pkt 7 False 320), (at 7000, pkt 7 False 480)]"
      "[(at 7000, pkt 7 True 640), (at 7000, pkt 7 True 640), (at 7000, pkt 7 True 640)]"]
  by (simp add: press_def continuation_def terminal_def at_def pkt_def fresh_def
      NewRTPDTMFReader_def DTMFToRune_def)

text \<open>
  C2. When the payload type matches and the decoder fails, \<open>Read\<close> still returns the
  underlying reader's count and a nil error, but it does not skip the packet: the event
  the failed decoder left behind is handed to \<open>processDTMFEvent\<close>, which can change
  \<open>lastEvent\<close>, \<open>lastTimestamp\<close> and \<open>endProcessed\<close>.
\<close>

theorem Read_decode_error_still_processed:
  assumes "reader w e b = ((n, None), b', e')"
    and "Header.PayloadType (PacketHeader (packetReader w e')) = Codec.PayloadType (codec w)"
    and "decode b' zero_DTMFEvent = (Some derr, ev)"
  shows "Read decode w e b = ((n, None), processDTMFEvent w e' ev, b', e')"
  using assms by (simp add: Read_def Let_def)

text \<open>
  A reader that has just reported digit 5 at timestamp 1000 reads a three-byte buffer
  with payload type 101, which \<open>DTMFDecode\<close> rejects. The call returns \<open>(3, nil)\<close>, and
  \<open>lastEvent\<close> goes from 5 to 0 and \<open>endProcessed\<close> from true to false; the
  retransmitted terminal packet of the same press is then detected a second time,
  where without the malformed packet it is absorbed.
\<close>

theorem Read_decode_error_still_processed_witness:
  "ret_of (Read DTMFDecode
      (run (NewRTPDTMFReader test_codec (\<lambda>e. e) (\<lambda>e b. ((3, None), b, e)) [])
           [(\<lparr>PacketHeader = \<lparr>Header.PayloadType = 101, Timestamp = 1000\<rparr>\<rparr>, pkt 5 True 800)])
      \<lparr>PacketHeader = \<lparr>Header.PayloadType = 101, Timestamp = 1000\<rparr>\<rparr> [5, 138, 3]) = (3, None)
   \<and> lastEvent (run (NewRTPDTMFReader test_codec (\<lambda>e. e) (\<lambda>e b. ((3, None), b, e)) [])
           [(\<lparr>PacketHeader = \<lparr>Header.PayloadType = 101, Timestamp = 1000\<rparr>\<rparr>, pkt 5 True 800)]) = 5
   \<and> endProcessed (run (NewRTPDTMFReader test_codec (\<lambda>e. e) (\<lambda>e b. ((3, None), b, e)) [])
           [(\<lparr>PacketHeader = \<lparr>Header.PayloadType = 101, Timestamp = 1000\<rparr>\<rparr>, pkt 5 True 800)])
   \<and> lastEvent (state_of (Read DTMFDecode
      (run (NewRTPDTMFReader test_codec (\<lambda>e. e) (\<lambda>e b. ((3, None), b, e)) [])
           [(\<lparr>PacketHeader = \<lparr>Header.PayloadType = 101, Timestamp = 1000\<rparr>\<rparr>, pkt 5 True 800)])
      \<lparr>PacketHeader = \<lparr>Header.PayloadType = 101, Timestamp = 1000\<rparr>\<rparr> [5, 138, 3])) = 0
   \<and> \<not> endProcessed (state_of (Read DTMFDecode
      (run (NewRTPDTMFReader test_codec (\<lambda>e. e) (\<lambda>e b. ((3, None), b, e)) [])
           [(\<lparr>PacketHeader = \<lparr>Header.PayloadType = 101, Timestamp = 1000\<rparr>\<rparr>, pkt 5 True 800)])
      \<lparr>PacketHeader = \<lparr>Header.PayloadType = 101, Timestamp = 1000\<rparr>\<rparr> [5, 138, 3]))
   \<and> detections (state_of (Read DTMFDecode
      (run (NewRTPDTMFReader test_codec (\<lambda>e. e) (\<lambda>e b. ((3, None), b, e)) [])
           [(\<lparr>PacketHeader = \<lparr>Header.PayloadType = 101, Timestamp = 1000\<rparr>\<rparr>, pkt 5 True 800)])
      \<lparr>PacketHeader = \<lparr>Header.PayloadType = 101, Timestamp = 1000\<rparr>\<rparr> [5, 138, 3]))
      [(\<lparr>PacketHeader = \<lparr>Header.PayloadType = 101, Timestamp = 1000\<rparr>\<rparr>, pkt 5 True 800)]
     = [Some (of_char CHR ''5'')]
   \<and> detections (run (NewRTPDTMFReader test_codec (\<lambda>e. e) (\<lambda>e b. ((3, None), b, e)) [])
           [(\<lparr>PacketHeader = \<lparr>Header.PayloadType = 101, Timestamp = 1000\<rparr>\<rparr>, pkt 5 True 800)])
      [(\<lparr>PacketHeader = \<lparr>Header.PayloadType = 101, Timestamp = 1000\<rparr>\<rparr>, pkt 5 True 800)]
     = [None]"
  using Read_decode_error_still_processed [of
      "run (NewRTPDTMFReader test_codec (\<lambda>e. e) (\<lambda>e b. ((3, None), b, e)) [])
           [(\<lparr>PacketHeader = \<lparr>Header.PayloadType = 101, Timestamp = 1000\<rparr>\<rparr>, pkt 5 True 800)]"
      "\<lparr>PacketHeader = \<lparr>Header.PayloadType = 101, Timestamp = 1000\<rparr>\<rparr>" "[5, 138, 3]"
      3 "[5, 138, 3]" "\<lparr>PacketHeader = \<lparr>Header.PayloadType = 101, Timestamp = 1000\<rparr>\<rparr>"
      DTMFDecode MalformedPayload zero_DTMFEvent]
  by (simp add: ret_of_def state_of_def NewRTPDTMFReader_def test_codec_def pkt_def poll_def
      ReadDTMF_def processDTMFEvent_def isNewEvent_def DTMFDecode_def zero_DTMFEvent_def
      DTMFToRune_def Let_def)

text \<open>
  C3. Three presses of one digit code with pairwise distinct RTP timestamps, polled
  after every packet, give three detections of that digit's symbol; and an event is
  taken as the same press exactly when its digit code and its packet timestamp both
  equal the stored ones. The latch is empty at the start and the first press has not
  already been reported.
\<close>

theorem three_presses_three_detections:
  assumes "press (packetReader w) d t1 cs1 tms1"
    and "press (packetReader w) d t2 cs2 tms2"
    and "press (packetReader w) d t3 cs3 tms3"
    and "distinct [t1, t2, t3]"
    and "\<not> dtmfSet w"
    and "\<not> (lastEvent w = d \<and> lastTimestamp w = t1 \<and> endProcessed w)"
  shows "detected w ((cs1 @ tms1) @ (cs2 @ tms2) @ (cs3 @ tms3))
           = [DTMFToRune d, DTMFToRune d, DTMFToRune d]
         \<and> (\<forall>ts ev. \<not> isNewEvent w ts ev \<longleftrightarrow> (Event ev = lastEvent w \<and> ts = lastTimestamp w))"
proof -
  let ?p = "packetReader w"
  have a1: "armed ?p d t1 w"
    using assms(5,6) by (simp add: armed_def)
  from run_press [OF assms(1) a1] have r1: "reported ?p d t1 (run w (cs1 @ tms1))"
    by simp
  from assms(4) have a2: "armed ?p d t2 (run w (cs1 @ tms1))"
    by (intro reported_armed [OF r1]) auto
  from run_press [OF assms(2) a2]
  have r2: "reported ?p d t2 (run (run w (cs1 @ tms1)) (cs2 @ tms2))"
    by simp
  from assms(4) have a3: "armed ?p d t3 (run (run w (cs1 @ tms1)) (cs2 @ tms2))"
    by (intro reported_armed [OF r2]) auto
  have "detected w ((cs1 @ tms1) @ (cs2 @ tms2) @ (cs3 @ tms3)) =
        detected w (cs1 @ tms1) @ detected (run w (cs1 @ tms1)) (cs2 @ tms2) @
        detected (run (run w (cs1 @ tms1)) (cs2 @ tms2)) (cs3 @ tms3)"
    by (simp only: detected_append)
  also have "\<dots> = [DTMFToRune d, DTMFToRune d, DTMFToRune d]"
    by (simp only: detected_press [OF assms(1) a1] detected_press [OF assms(2) a2]
        detected_press [OF assms(3) a3] append.simps)
  finally show ?thesis
    by (auto simp: isNewEvent_def)
qed

text \<open>The packets of \<open>TestDTMFReaderRepeated\<close>: digit 1 at 1000, 2000 and 3000 gives "111".\<close>

theorem three_presses_three_detections_witness:
  "detected fresh
     (([(at 1000, pkt 1 False 160), (at 1000, pkt 1 False 320), (at 1000, pkt 1 False 480), (at 1000, pkt 1 False 640)]
        @ [(at 1000, pkt 1 True 800), (at 1000, pkt 1 True 800), (at 1000, pkt 1 True 800)])
      @ ([(at 2000, pkt 1 False 160), (at 2000, pkt 1 False 320), (at 2000, pkt 1 False 480), (at 2000, pkt 1 False 640)]
        @ [(at 2000, pkt 1 True 800), (at 2000, pkt 1 True 800), (at 2000, pkt 1 True 800)])
      @ ([(at 3000, pkt 1 False 160), (at 3000, pkt 1 False 320), (at 3000, pkt 1 False 480), (at 3000, pkt 1 False 640)]
        @ [(at 3000, pkt 1 True 800), (at 3000, pkt 1 True 800), (at 3000, pkt 1 True 800)]))
   = map of_char ''111''"
  using three_presses_three_detections [of fresh 1 1000
      "[(at 1000, pkt 1 False 160), (at 1000, pkt 1 False 320), (at 1000, pkt 1 False 480), (at 1000, pkt 1 False 640)]"
      "[(at 1000, pkt 1 True 800), (at 1000, pkt 1 True 800), (at 1000, pkt 1 True 800)]"
      2000
      "[(at 2000, pkt 1 False 160), (at 2000, pkt 1 False 320), (at 2000, pkt 1 False 480), (at 2000, pkt 1 False 640)]"
      "[(at 2000, pkt 1 True 800), (at 2000, pkt 1 True 800), (at 2000, pkt 1 True 800)]"
      3000
      "[(at 3000, pkt 1 False 160), (at 3000, pkt 1 False 320), (at 3000, pkt 1 False 480), (at 3000, pkt 1 False 640)]"
      "[(at 3000, pkt 1 True 800), (at 3000, pkt 1 True 800), (at 3000, pkt 1 True 800)]"]
  by (simp add: press_def continuation_def terminal_def at_def pkt_def fresh_def
      NewRTPDTMFReader_def DTMFToRune_def)

text \<open>
  C4. An event that starts a new press (its digit or the packet timestamp differs from
  the stored pair) and already carries the end flag is reported on that very packet:
  the latch holds the digit's symbol and is set, \<open>endProcessed\<close> is true, the stored
  pair is the event's, and a poll after this one packet yields the symbol.
\<close>

theorem immediate_end_detected:
  assumes "isNewEvent w (Timestamp (PacketHeader (packetReader w e))) ev"
    and "EndOfEvent ev"
  shows "dtmf (processDTMFEvent w e ev) = DTMFToRune (Event ev)
         \<and> dtmfSet (processDTMFEvent w e ev)
         \<and> endProcessed (processDTMFEvent w e ev)
         \<and> lastEvent (processDTMFEvent w e ev) = Event ev
         \<and> lastTimestamp (processDTMFEvent w e ev) = Timestamp (PacketHeader (packetReader w e))
         \<and> detections (w\<lparr>dtmfSet := False\<rparr>) [(e, ev)] = [Some (DTMFToRune (Event ev))]"
  using assms
  by (simp add: processDTMFEvent_def poll_def ReadDTMF_def isNewEvent_def Let_def)

text \<open>The lone terminal packet of \<open>TestDTMFShortDuration\<close>: digit 6 at 6000 gives "6".\<close>

theorem immediate_end_detected_witness:
  "detected fresh [(at 6000, pkt 6 True 200)] = map of_char ''6''
   \<and> endProcessed (processDTMFEvent fresh (at 6000) (pkt 6 True 200))"
  using immediate_end_detected [of fresh "at 6000" "pkt 6 True 200"]
  by (simp add: isNewEvent_def at_def pkt_def fresh_def NewRTPDTMFReader_def DTMFToRune_def
      detected_def List.map_filter_simps)

text \<open>
  C5. Across a call of \<open>processDTMFEvent\<close>, \<open>endProcessed\<close> is true before and false
  after exactly when it was true, the event starts a new press (its digit differs from
  \<open>lastEvent\<close> or the packet timestamp from \<open>lastTimestamp\<close>) and the event does not
  carry the end flag. A new press always leaves the flag equal to the event's end
  flag: the reset of line 75 is followed by line 81 when the packet is terminal.
  A call that does not start a new press never takes the flag from true to false.
\<close>

theorem endProcessed_true_to_false_iff:
  "((endProcessed w \<and> \<not> endProcessed (processDTMFEvent w e ev))
      \<longleftrightarrow> (endProcessed w
           \<and> (lastEvent w \<noteq> Event ev \<or> lastTimestamp w \<noteq> Timestamp (PacketHeader (packetReader w e)))
           \<and> \<not> EndOfEvent ev))
   \<and> ((lastEvent w \<noteq> Event ev \<or> lastTimestamp w \<noteq> Timestamp (PacketHeader (packetReader w e)))
      \<longrightarrow> endProcessed (processDTMFEvent w e ev) = EndOfEvent ev)
   \<and> (lastEvent w = Event ev \<and> lastTimestamp w = Timestamp (PacketHeader (packetReader w e))
        \<and> endProcessed w
      \<longrightarrow> endProcessed (processDTMFEvent w e ev))"
  by (auto simp: processDTMFEvent_def isNewEvent_def Let_def)

text \<open>
  After digit 1 at 1000 has been reported, a continuation packet of digit 1 at 2000
  takes the flag to false.
\<close>

theorem endProcessed_true_to_false_iff_witness:
  "endProcessed (run fresh [(at 1000, pkt 1 True 800)])
   \<and> \<not> endProcessed (processDTMFEvent (run fresh [(at 1000, pkt 1 True 800)]) (at 2000) (pkt 1 False 160))"
  using endProcessed_true_to_false_iff [of "run fresh [(at 1000, pkt 1 True 800)]" "at 2000" "pkt 1 False 160"]
  by (simp add: at_def pkt_def fresh_def NewRTPDTMFReader_def poll_def ReadDTMF_def
      processDTMFEvent_def isNewEvent_def Let_def)

text \<open>
  After digit 1 at 1000 has been reported, a terminal packet of digit 1 at 2000 starts
  a new press, and the flag, true before the call, is true after it: going from true
  to false is not the same as starting a new press.
\<close>

theorem endProcessed_new_terminal_press_stays_true:
  "\<not> ((endProcessed (run fresh [(at 1000, pkt 1 True 800)])
        \<and> \<not> endProcessed (processDTMFEvent (run fresh [(at 1000, pkt 1 True 800)]) (at 2000) (pkt 1 True 800)))
       \<longleftrightarrow> (lastEvent (run fresh [(at 1000, pkt 1 True 800)]) \<noteq> Event (pkt 1 True 800)
            \<or> lastTimestamp (run fresh [(at 1000, pkt 1 True 800)])
                 \<noteq> Timestamp (PacketHeader (packetReader (run fresh [(at 1000, pkt 1 True 800)]) (at 2000)))))"
  by (simp add: at_def pkt_def fresh_def NewRTPDTMFReader_def poll_def ReadDTMF_def
      processDTMFEvent_def isNewEvent_def Let_def)

text \<open>
  C6. \<open>ReadDTMF\<close> returns the held symbol with the flag and clears the flag whatever
  it was; a second call right after the first returns the flag false.
\<close>

theorem ReadDTMF_read_and_clear:
  "fst (ReadDTMF w) = (dtmf w, dtmfSet w)
   \<and> \<not> dtmfSet (snd (ReadDTMF w))
   \<and> snd (fst (ReadDTMF (snd (ReadDTMF w)))) = False"
  by (simp add: ReadDTMF_def)

theorem ReadDTMF_read_and_clear_witness:
  "fst (ReadDTMF (processDTMFEvent fresh (at 6000) (pkt 6 True 200))) = (of_char CHR ''6'', True)
   \<and> snd (fst (ReadDTMF (snd (ReadDTMF (processDTMFEvent fresh (at 6000) (pkt 6 True 200)))))) = False"
  using ReadDTMF_read_and_clear [of "processDTMFEvent fresh (at 6000) (pkt 6 True 200)"]
  by (simp add: processDTMFEvent_def isNewEvent_def at_def pkt_def fresh_def NewRTPDTMFReader_def
      DTMFToRune_def Let_def)

text \<open>
  C7. \<open>Read\<close> hands back the count, the error, the buffer and the environment exactly
  as the wrapped reader left them, in every case. When the payload type of the packet
  differs from the codec's, the reader itself is unchanged, so none of \<open>lastEvent\<close>,
  \<open>lastTimestamp\<close>, \<open>endProcessed\<close>, \<open>dtmf\<close>, \<open>dtmfSet\<close> changes, and the outcome is
  the same for every decoder: the decoder is not consulted.
\<close>

theorem Read_passthrough:
  "ret_of (Read decode w e b) = fst (reader w e b)
   \<and> buf_of (Read decode w e b) = fst (snd (reader w e b))
   \<and> env_of (Read decode w e b) = snd (snd (reader w e b))
   \<and> (Header.PayloadType (PacketHeader (packetReader w (snd (snd (reader w e b)))))
        \<noteq> Codec.PayloadType (codec w)
      \<longrightarrow> state_of (Read decode w e b) = w \<and> Read decode w e b = Read decode' w e b)"
  by (cases "reader w e b")
     (auto simp: Read_def ret_of_def buf_of_def env_of_def state_of_def Let_def split: prod.splits)

text \<open>An audio packet (payload type 0) whose first bytes would decode as a terminal event.\<close>

theorem Read_passthrough_witness:
  "Read DTMFDecode
     (NewRTPDTMFReader test_codec (\<lambda>e. e) (\<lambda>e b. ((4, None), [3, 138, 3, 32], at 1000)) [])
     (at 0) [0, 0, 0, 0]
   = ((4, None),
      NewRTPDTMFReader test_codec (\<lambda>e. e) (\<lambda>e b. ((4, None), [3, 138, 3, 32], at 1000)) [],
      [3, 138, 3, 32], at 1000)"
  using Read_passthrough [of DTMFDecode
      "NewRTPDTMFReader test_codec (\<lambda>e. e) (\<lambda>e b. ((4, None), [3, 138, 3, 32], at 1000)) []"
      "at 0" "[0, 0, 0, 0]" DTMFDecode]
  by (simp add: ret_of_def buf_of_def env_of_def state_of_def NewRTPDTMFReader_def test_codec_def
      at_def prod_eq_iff)

text \<open>
  C8. The variadic \<open>minDuration\<close> of \<open>NewRTPDTMFReader\<close> has no effect: whatever is
  passed, the constructed reader equals the one built with no \<open>minDuration\<close>, so it
  starts in the same state (\<open>lastEvent\<close> 255, everything else zero) and \<open>Read\<close>,
  \<open>processDTMFEvent\<close> and \<open>ReadDTMF\<close> do the same on it.
\<close>

theorem minDuration_ignored:
  "NewRTPDTMFReader cdc pktReader rdr minDuration = NewRTPDTMFReader cdc pktReader rdr []
   \<and> Read decode (NewRTPDTMFReader cdc pktReader rdr minDuration) e b
       = Read decode (NewRTPDTMFReader cdc pktReader rdr []) e b
   \<and> processDTMFEvent (NewRTPDTMFReader cdc pktReader rdr minDuration) e ev
       = processDTMFEvent (NewRTPDTMFReader cdc pktReader rdr []) e ev
   \<and> ReadDTMF (NewRTPDTMFReader cdc pktReader rdr minDuration)
       = ReadDTMF (NewRTPDTMFReader cdc pktReader rdr [])
   \<and> lastEvent (NewRTPDTMFReader cdc pktReader rdr minDuration) = 255
   \<and> lastTimestamp (NewRTPDTMFReader cdc pktReader rdr minDuration) = 0
   \<and> \<not> endProcessed (NewRTPDTMFReader cdc pktReader rdr minDuration)
   \<and> \<not> dtmfSet (NewRTPDTMFReader cdc pktReader rdr minDuration)"
  by (simp add: NewRTPDTMFReader_def)

text \<open>The three constructions of \<open>TestDTMFBackwardCompatibility\<close>.\<close>

theorem minDuration_ignored_witness:
  "NewRTPDTMFReader test_codec (\<lambda>e :: RTPPacketReader. e) (\<lambda>e b. ((0, Some EOF), b, e)) [480] = fresh
   \<and> NewRTPDTMFReader test_codec (\<lambda>e :: RTPPacketReader. e) (\<lambda>e b. ((0, Some EOF), b, e)) [160, 320] = fresh"
  using minDuration_ignored [of test_codec "\<lambda>e :: RTPPacketReader. e" "\<lambda>e b. ((0, Some EOF), b, e)" "[480]"]
    minDuration_ignored [of test_codec "\<lambda>e :: RTPPacketReader. e" "\<lambda>e b. ((0, Some EOF), b, e)" "[160, 320]"]
  by (simp add: fresh_def)

text \<open>
  C9. \<open>ReadDTMF\<close> clears the flag and nothing else: the stored rune is unchanged, and
  a second call right after the first returns the same rune with the flag false.
\<close>

theorem ReadDTMF_keeps_symbol:
  "dtmf (snd (ReadDTMF w)) = dtmf w
   \<and> snd (ReadDTMF w) = w\<lparr>dtmfSet := False\<rparr>
   \<and> fst (ReadDTMF (snd (ReadDTMF w))) = (fst (fst (ReadDTMF w)), False)"
  by (simp add: ReadDTMF_def)

theorem ReadDTMF_keeps_symbol_witness:
  "fst (ReadDTMF (snd (ReadDTMF (processDTMFEvent fresh (at 6000) (pkt 6 True 200)))))
     = (of_char CHR ''6'', False)"
  using ReadDTMF_keeps_symbol [of "processDTMFEvent fresh (at 6000) (pkt 6 True 200)"]
  by (simp add: ReadDTMF_def processDTMFEvent_def isNewEvent_def at_def pkt_def fresh_def
      NewRTPDTMFReader_def DTMFToRune_def Let_def)



end
